theory Spec2Isabelle
  imports Main
begin

section \<open>The chess engine core of \<open>src/lib/engine-core.js\<close>\<close>

text \<open>
  The engine keeps one mutable position object and threads it through move generation,
  make/unmake and the search. The embedding passes the position explicitly: every function
  that mutates \<open>state\<close> in the source returns the position it leaves behind.

  JavaScript values are modelled as follows.
  \<^item> A number read from text is \<open>NaN\<close> or an integer (\<open>number\<close>); integers stand for
    the doubles of the source, exact below \<open>2^53\<close>. Square indices computed by loops are
    \<open>int\<close>.
  \<^item> A one-character string (a piece letter) is a \<open>char\<close>; \<open>null\<close> and \<open>undefined\<close>
    in a board slot or an optional move field are both \<open>None\<close> (the source only tests
    them for truthiness or compares them with a letter).
  \<^item> The board array is a list. A read outside it yields \<open>undefined\<close>; a write past its
    end extends it, the gap left empty. A write at a negative index, which in JavaScript
    creates a named property beside the elements, leaves the list as it is.
\<close>

subsection \<open>Numbers and characters\<close>

datatype number = NaN | Num int

fun incr :: "number \<Rightarrow> number" where
  "incr NaN = NaN"
| "incr (Num n) = Num (n + 1)"

fun decr :: "number \<Rightarrow> number" where
  "decr NaN = NaN"
| "decr (Num n) = Num (n - 1)"

text \<open>The remainder operator \<open>%\<close> takes the sign of the dividend.\<close>

definition js_rem :: "int \<Rightarrow> int \<Rightarrow> int" where
  "js_rem a b = (if a < 0 then - ((- a) mod b) else a mod b)"

definition toUpperCase :: "char \<Rightarrow> char" where
  "toUpperCase c =
     (let n = (of_char c :: nat) in if 97 \<le> n \<and> n \<le> 122 then char_of (n - 32) else c)"

definition toLowerCase :: "char \<Rightarrow> char" where
  "toLowerCase c =
     (let n = (of_char c :: nat) in if 65 \<le> n \<and> n \<le> 90 then char_of (n + 32) else c)"

subsection \<open>Positions, moves and undo records\<close>

type_synonym square = "char option"

record castling_rights =
  cas_K :: bool
  cas_Q :: bool
  cas_k :: bool
  cas_q :: bool

record state =
  board :: "square list"
  whiteToMove :: bool
  castling :: castling_rights
  enPassant :: number
  halfmove :: number
  fullmove :: number

record move =
  from_sq :: int
  to_sq :: int
  piece :: char
  capture :: "char option"
  promotion :: "char option"
  flag :: "string option"
  castle :: "char option"

record undo =
  u_move :: move
  u_captured :: "char option"
  u_enPassant :: number
  u_castling :: castling_rights
  u_halfmove :: number
  u_fullmove :: number

definition board_at :: "square list \<Rightarrow> int \<Rightarrow> square" where
  "board_at b i = (if 0 \<le> i \<and> i < int (length b) then b ! nat i else None)"

definition board_set :: "square list \<Rightarrow> int \<Rightarrow> square \<Rightarrow> square list" where
  "board_set b i v =
     (if i < 0 then b
      else if nat i < length b then b[nat i := v]
      else b @ replicate (nat i - length b) None @ [v])"

definition cloneState :: "state \<Rightarrow> state" where
  "cloneState s =
     \<lparr>board = take (length (board s)) (board s),
      whiteToMove = whiteToMove s,
      castling = \<lparr>cas_K = cas_K (castling s), cas_Q = cas_Q (castling s),
                  cas_k = cas_k (castling s), cas_q = cas_q (castling s)\<rparr>,
      enPassant = enPassant s,
      halfmove = halfmove s,
      fullmove = fullmove s\<rparr>"

subsection \<open>Square names\<close>

definition FILES :: "char list" where
  "FILES = ''abcdefgh''"

fun indexOf :: "char list \<Rightarrow> char option \<Rightarrow> int" where
  "indexOf [] c = -1"
| "indexOf (x # xs) c = (if Some x = c then 0 else (let i = indexOf xs c in if i < 0 then -1 else i + 1))"

definition isDigit :: "char \<Rightarrow> bool" where
  "isDigit c = (let n = (of_char c :: nat) in 48 \<le> n \<and> n \<le> 57)"

definition digitVal :: "char \<Rightarrow> int" where
  "digitVal c = int (of_char c) - 48"

text \<open>The white space \<open>parseInt\<close> and \<open>Number\<close> skip, within ASCII.\<close>

definition isSpace :: "char \<Rightarrow> bool" where
  "isSpace c = (let n = (of_char c :: nat) in n = 32 \<or> (9 \<le> n \<and> n \<le> 13))"

fun digitsVal :: "int \<Rightarrow> string \<Rightarrow> int" where
  "digitsVal acc [] = acc"
| "digitsVal acc (c # cs) = (if isDigit c then digitsVal (acc * 10 + digitVal c) cs else acc)"

definition parseDigits :: "string \<Rightarrow> number" where
  "parseDigits s = (case s of [] \<Rightarrow> NaN | c # cs \<Rightarrow> if isDigit c then Num (digitsVal 0 s) else NaN)"

fun neg :: "number \<Rightarrow> number" where
  "neg NaN = NaN"
| "neg (Num n) = Num (- n)"

text \<open>\<open>parseInt(s, 10)\<close>: leading white space, an optional sign, then the longest run of
  digits; \<open>NaN\<close> when there is no digit. An absent argument reads as the text
  \<open>undefined\<close>, which has no digit.\<close>

definition parseInt :: "string \<Rightarrow> number" where
  "parseInt s =
     (case dropWhile isSpace s of
        [] \<Rightarrow> NaN
      | c # cs \<Rightarrow>
          if c = CHR ''-'' then neg (parseDigits cs)
          else if c = CHR ''+'' then parseDigits cs
          else parseDigits (c # cs))"

definition parseIntOpt :: "string option \<Rightarrow> number" where
  "parseIntOpt s = (case s of None \<Rightarrow> NaN | Some t \<Rightarrow> parseInt t)"

definition charAt :: "string \<Rightarrow> nat \<Rightarrow> char option" where
  "charAt s i = (if i < length s then Some (s ! i) else None)"

fun numSub :: "number \<Rightarrow> int \<Rightarrow> number" where
  "numSub NaN d = NaN"
| "numSub (Num n) d = Num (n - d)"

fun rankFile :: "number \<Rightarrow> int \<Rightarrow> number" where
  "rankFile NaN f = NaN"
| "rankFile (Num r) f = Num (r * 8 + f)"

definition squareToIndex :: "string \<Rightarrow> number" where
  "squareToIndex name =
     (let file = indexOf FILES (charAt name 0);
          rank = numSub (parseIntOpt (map_option (\<lambda>c. [c]) (charAt name 1))) 1
      in rankFile rank file)"

text \<open>Decimal text of an integer, as string conversion of a number prints it.\<close>

fun showNat :: "nat \<Rightarrow> string" where
  "showNat n = (if n < 10 then [char_of (48 + n)] else showNat (n div 10) @ [char_of (48 + n mod 10)])"

definition showInt :: "int \<Rightarrow> string" where
  "showInt i = (if i < 0 then CHR ''-'' # showNat (nat (- i)) else showNat (nat i))"

fun showNumber :: "number \<Rightarrow> string" where
  "showNumber NaN = ''NaN''"
| "showNumber (Num i) = showInt i"

text \<open>\<open>FILES[file] + (rank + 1)\<close>: a file outside the table is \<open>undefined\<close>, and
  \<open>undefined\<close> plus a number is \<open>NaN\<close>.\<close>

fun indexToSquare :: "number \<Rightarrow> string" where
  "indexToSquare NaN = ''NaN''"
| "indexToSquare (Num idx) =
     (let file = js_rem idx 8; rank = idx div 8
      in if 0 \<le> file \<and> file < 8 then (FILES ! nat file) # showInt (rank + 1) else ''NaN'')"

text \<open>The source writes its fixed squares as \<open>squareToIndex('e1')\<close> and the like. Each
  such name is a valid square, so the call yields an integer; \<open>sq\<close> is that integer.\<close>

definition sq :: "string \<Rightarrow> int" where
  "sq name = (case squareToIndex name of Num i \<Rightarrow> i | NaN \<Rightarrow> - 1)"

subsection \<open>Applying and reverting a move\<close>

definition makeMove :: "state \<Rightarrow> move \<Rightarrow> state \<times> undo" where
  "makeMove s m =
     (let un = \<lparr>u_move = m, u_captured = capture m, u_enPassant = enPassant s,
                u_castling = castling s, u_halfmove = halfmove s, u_fullmove = fullmove s\<rparr>;
          hm0 = incr (halfmove s);
          movingPiece = (case promotion m of Some p \<Rightarrow> p | None \<Rightarrow> piece m);
          b1 = (if flag m = Some ''enpassant''
                then board_set (board s) (if whiteToMove s then to_sq m - 8 else to_sq m + 8) None
                else board s);
          b2 = board_set b1 (to_sq m) (Some movingPiece);
          b3 = board_set b2 (from_sq m) None;
          hm1 = (if toLowerCase movingPiece = CHR ''p'' then Num 0 else hm0);
          hm2 = (if capture m \<noteq> None then Num 0 else hm1);
          ep = (if flag m = Some ''double''
                then Num (if whiteToMove s then to_sq m - 8 else to_sq m + 8)
                else Num (- 1));
          c0 = castling s;
          c1 = (if piece m = CHR ''K'' then c0\<lparr>cas_K := False, cas_Q := False\<rparr> else c0);
          c2 = (if piece m = CHR ''k'' then c1\<lparr>cas_k := False, cas_q := False\<rparr> else c1);
          c3 = (if from_sq m = sq ''a1'' \<or> to_sq m = sq ''a1''
                then c2\<lparr>cas_Q := False\<rparr> else c2);
          c4 = (if from_sq m = sq ''h1'' \<or> to_sq m = sq ''h1''
                then c3\<lparr>cas_K := False\<rparr> else c3);
          c5 = (if from_sq m = sq ''a8'' \<or> to_sq m = sq ''a8''
                then c4\<lparr>cas_q := False\<rparr> else c4);
          c6 = (if from_sq m = sq ''h8'' \<or> to_sq m = sq ''h8''
                then c5\<lparr>cas_k := False\<rparr> else c5);
          b4 = (if flag m = Some ''castle'' then
                  (let k1 = (if castle m = Some CHR ''K''
                             then board_set (board_set b3 (sq ''f1'') (Some CHR ''R''))
                                    (sq ''h1'') None
                             else b3);
                       k2 = (if castle m = Some CHR ''Q''
                             then board_set (board_set k1 (sq ''d1'') (Some CHR ''R''))
                                    (sq ''a1'') None
                             else k1);
                       k3 = (if castle m = Some CHR ''k''
                             then board_set (board_set k2 (sq ''f8'') (Some CHR ''r''))
                                    (sq ''h8'') None
                             else k2)
                   in if castle m = Some CHR ''q''
                      then board_set (board_set k3 (sq ''d8'') (Some CHR ''r''))
                             (sq ''a8'') None
                      else k3)
                else b3);
          wtm = (\<not> whiteToMove s);
          fm = (if \<not> wtm then incr (fullmove s) else fullmove s)
      in (\<lparr>board = b4, whiteToMove = wtm, castling = c6, enPassant = ep,
           halfmove = hm2, fullmove = fm\<rparr>, un))"

definition undoMove :: "state \<Rightarrow> undo \<Rightarrow> state" where
  "undoMove s un =
     (let m = u_move un;
          wtm = (\<not> whiteToMove s);
          fm = (if wtm then decr (fullmove s) else fullmove s);
          b1 = board_set (board s) (from_sq m) (Some (piece m));
          b2 = board_set b1 (to_sq m) None;
          b3 = (if promotion m \<noteq> None then board_set b2 (from_sq m) (Some (piece m)) else b2);
          b4 = (if flag m = Some ''enpassant''
                then board_set b3 (if wtm then to_sq m + 8 else to_sq m - 8) (u_captured un)
                else if flag m = Some ''castle'' then
                  (let k1 = (if castle m = Some CHR ''K''
                             then board_set (board_set b3 (sq ''h1'') (Some CHR ''R''))
                                    (sq ''f1'') None
                             else b3);
                       k2 = (if castle m = Some CHR ''Q''
                             then board_set (board_set k1 (sq ''a1'') (Some CHR ''R''))
                                    (sq ''d1'') None
                             else k1);
                       k3 = (if castle m = Some CHR ''k''
                             then board_set (board_set k2 (sq ''h8'') (Some CHR ''r''))
                                    (sq ''f8'') None
                             else k2)
                   in if castle m = Some CHR ''q''
                      then board_set (board_set k3 (sq ''a8'') (Some CHR ''r''))
                             (sq ''d8'') None
                      else k3)
                else b3);
          b5 = (if capture m \<noteq> None \<and> flag m \<noteq> Some ''enpassant''
                then board_set b4 (to_sq m) (u_captured un) else b4)
      in \<lparr>board = b5, whiteToMove = wtm, castling = u_castling un,
          enPassant = u_enPassant un, halfmove = u_halfmove un, fullmove = fm\<rparr>)"

subsection \<open>Attack detection\<close>

definition KNIGHT_DELTAS :: "int list" where
  "KNIGHT_DELTAS = [-17, -15, -10, -6, 6, 10, 15, 17]"

definition BISHOP_DELTAS :: "int list" where
  "BISHOP_DELTAS = [-9, -7, 7, 9]"

definition ROOK_DELTAS :: "int list" where
  "ROOK_DELTAS = [-8, -1, 1, 8]"

definition QUEEN_DELTAS :: "int list" where
  "QUEEN_DELTAS = BISHOP_DELTAS @ ROOK_DELTAS"

definition pieceColor :: "square \<Rightarrow> char option" where
  "pieceColor p =
     (case p of None \<Rightarrow> None
      | Some c \<Rightarrow> Some (if c = toUpperCase c then CHR ''w'' else CHR ''b''))"

definition inBounds :: "int \<Rightarrow> bool" where
  "inBounds idx = (idx \<ge> 0 \<and> idx < 64)"

text \<open>One ray of the attack scan: the \<open>while\<close> loop walks from \<open>(f, r)\<close> in steps of
  \<open>(stepFile, stepRank)\<close> until it leaves the board or meets a piece; \<open>p1\<close> and \<open>p2\<close> are
  the two letters that attack along this ray. The source enters the loop only with a
  non-zero step (its delta tables are constants); the model's scan ends on a zero step.\<close>

function rayAttacked :: "state \<Rightarrow> char \<Rightarrow> char \<Rightarrow> int \<Rightarrow> int \<Rightarrow> int \<Rightarrow> int \<Rightarrow> bool" where
  "rayAttacked s p1 p2 stepFile stepRank f r =
     (if f \<ge> 0 \<and> f < 8 \<and> r \<ge> 0 \<and> r < 8 \<and> \<not> (stepFile = 0 \<and> stepRank = 0) then
        (case board_at (board s) (r * 8 + f) of
           Some pc \<Rightarrow> pc = p1 \<or> pc = p2
         | None \<Rightarrow> rayAttacked s p1 p2 stepFile stepRank (f + stepFile) (r + stepRank))
      else False)"
  by pat_completeness auto
termination
  by (relation "measure (\<lambda>(s, p1, p2, sf, sr, f, r).
        nat (if sf > 0 then 8 - f else if sf < 0 then f + 1
             else if sr > 0 then 8 - r else r + 1))") auto

definition isSquareAttacked :: "state \<Rightarrow> int \<Rightarrow> bool \<Rightarrow> bool" where
  "isSquareAttacked s squareIdx byWhite =
     (let dir = (if byWhite then 1 else - 1);
          file = js_rem squareIdx 8;
          rank = squareIdx div 8
      in
        list_ex (\<lambda>df.
          let tFile = file + df; tRank = rank - dir in
          if tFile < 0 \<or> tFile > 7 \<or> tRank < 0 \<or> tRank > 7 then False
          else board_at (board s) (tRank * 8 + tFile)
                 = Some (if byWhite then CHR ''P'' else CHR ''p'')) [- 1, 1]
        \<or> list_ex (\<lambda>delta.
          let target = squareIdx + delta in
          if \<not> inBounds target then False
          else if abs (js_rem target 8 - file) > 2 then False
          else board_at (board s) target
                 = Some (if byWhite then CHR ''N'' else CHR ''n'')) KNIGHT_DELTAS
        \<or> list_ex (\<lambda>delta.
          let stepFile = (if delta = 9 \<or> delta = - 7 then 1 else - 1);
              stepRank = (if delta > 0 then 1 else - 1)
          in rayAttacked s (if byWhite then CHR ''B'' else CHR ''b'')
               (if byWhite then CHR ''Q'' else CHR ''q'')
               stepFile stepRank (file + stepFile) (rank + stepRank)) BISHOP_DELTAS
        \<or> list_ex (\<lambda>delta.
          let stepFile = (if delta = 1 then 1 else if delta = - 1 then - 1 else 0);
              stepRank = (if delta = 8 then 1 else if delta = - 8 then - 1 else 0)
          in rayAttacked s (if byWhite then CHR ''R'' else CHR ''r'')
               (if byWhite then CHR ''Q'' else CHR ''q'')
               stepFile stepRank (file + stepFile) (rank + stepRank)) ROOK_DELTAS
        \<or> list_ex (\<lambda>dr. list_ex (\<lambda>df.
          if dr = 0 \<and> df = 0 then False
          else
            let tFile = file + df; tRank = rank + dr in
            if tFile < 0 \<or> tFile > 7 \<or> tRank < 0 \<or> tRank > 7 then False
            else board_at (board s) (tRank * 8 + tFile)
                   = Some (if byWhite then CHR ''K'' else CHR ''k'')) [- 1, 0, 1]) [- 1, 0, 1])"

definition findKing :: "state \<Rightarrow> bool \<Rightarrow> int" where
  "findKing s white =
     (let target = (if white then CHR ''K'' else CHR ''k'')
      in case find (\<lambda>i. board_at (board s) i = Some target) [0..63] of
           None \<Rightarrow> - 1
         | Some i \<Rightarrow> i)"

subsection \<open>Move generation\<close>

text \<open>Each generator returns the moves it pushes onto \<open>moves\<close>, in the order it pushes
  them.\<close>

definition plainMove :: "int \<Rightarrow> int \<Rightarrow> char \<Rightarrow> char option \<Rightarrow> move" where
  "plainMove fr to pc cap =
     \<lparr>from_sq = fr, to_sq = to, piece = pc, capture = cap, promotion = None,
      flag = None, castle = None\<rparr>"

definition addPawnMove :: "int \<Rightarrow> int \<Rightarrow> char \<Rightarrow> bool \<Rightarrow> char option \<Rightarrow> move list" where
  "addPawnMove fr to pc promo cap =
     (if promo then
        map (\<lambda>pr. \<lparr>from_sq = fr, to_sq = to, piece = pc, capture = cap,
                    promotion = Some (if pc = CHR ''P'' then toUpperCase pr else pr),
                    flag = Some ''promotion'', castle = None\<rparr>) ''qrbn''
      else [plainMove fr to pc cap])"

definition generatePawnMoves :: "state \<Rightarrow> int \<Rightarrow> char \<Rightarrow> move list" where
  "generatePawnMoves s idx pc =
     (let white = (pc = CHR ''P'');
          dir = (if white then 8 else - 8);
          startRank = (if white then 1 else 6);
          promotionRank = (if white then 7 else 0);
          rank = idx div 8;
          forward = idx + dir;
          pushes =
            (if inBounds forward \<and> board_at (board s) forward = None then
               addPawnMove idx forward pc (rank + 1 = promotionRank) None @
               (let doubleForward = idx + dir * 2 in
                if rank = startRank \<and> board_at (board s) doubleForward = None
                then [(plainMove idx doubleForward pc None)\<lparr>flag := Some ''double''\<rparr>]
                else [])
             else []);
          captures =
            concat (map (\<lambda>df.
              let file = js_rem idx 8 + df in
              if file < 0 \<or> file > 7 then []
              else
                let target = idx + dir + df;
                    targetPiece = board_at (board s) target
                in (if targetPiece \<noteq> None \<and> pieceColor targetPiece \<noteq> pieceColor (Some pc)
                    then addPawnMove idx target pc (rank + 1 = promotionRank) targetPiece
                    else []) @
                   (if Num target = enPassant s
                    then [(plainMove idx target pc
                             (Some (if white then CHR ''p'' else CHR ''P'')))
                            \<lparr>flag := Some ''enpassant''\<rparr>]
                    else [])) [- 1, 1])
      in pushes @ captures)"

definition generateJumpMoves :: "state \<Rightarrow> int \<Rightarrow> char \<Rightarrow> int list \<Rightarrow> move list" where
  "generateJumpMoves s idx pc deltas =
     concat (map (\<lambda>delta.
       let target = idx + delta in
       if \<not> inBounds target then []
       else if abs (js_rem target 8 - js_rem idx 8) > 2 then []
       else
         let targetPiece = board_at (board s) target in
         if targetPiece = None \<or> pieceColor targetPiece \<noteq> pieceColor (Some pc)
         then [plainMove idx target pc targetPiece]
         else []) deltas)"

text \<open>One ray of a sliding piece; as in \<open>rayAttacked\<close>, a zero step ends the scan.\<close>

function slideRay :: "state \<Rightarrow> int \<Rightarrow> char \<Rightarrow> int \<Rightarrow> int \<Rightarrow> int \<Rightarrow> int \<Rightarrow> move list" where
  "slideRay s idx pc stepFile stepRank f r =
     (if f \<ge> 0 \<and> f < 8 \<and> r \<ge> 0 \<and> r < 8 \<and> \<not> (stepFile = 0 \<and> stepRank = 0) then
        (let target = r * 8 + f;
             targetPiece = board_at (board s) target
         in if targetPiece = None
            then plainMove idx target pc None
                   # slideRay s idx pc stepFile stepRank (f + stepFile) (r + stepRank)
            else if pieceColor targetPiece \<noteq> pieceColor (Some pc)
            then [plainMove idx target pc targetPiece]
            else [])
      else [])"
  by pat_completeness auto
termination
  by (relation "measure (\<lambda>(s, idx, pc, sf, sr, f, r).
        nat (if sf > 0 then 8 - f else if sf < 0 then f + 1
             else if sr > 0 then 8 - r else r + 1))") auto

definition generateSlideMoves :: "state \<Rightarrow> int \<Rightarrow> char \<Rightarrow> int list \<Rightarrow> move list" where
  "generateSlideMoves s idx pc deltas =
     (let startFile = js_rem idx 8;
          startRank = idx div 8
      in concat (map (\<lambda>delta.
           let stepFile = (if delta = 1 then 1 else if delta = - 1 then - 1
                           else if delta = 9 \<or> delta = - 7 then 1
                           else if delta = - 9 \<or> delta = 7 then - 1 else 0);
               stepRank = (if delta = 8 \<or> delta = 9 \<or> delta = 7 then 1
                           else if delta = - 8 \<or> delta = - 9 \<or> delta = - 7 then - 1 else 0)
           in slideRay s idx pc stepFile stepRank (startFile + stepFile) (startRank + stepRank))
         deltas))"

definition castleMove :: "int \<Rightarrow> int \<Rightarrow> char \<Rightarrow> char \<Rightarrow> move" where
  "castleMove fr to pc side =
     \<lparr>from_sq = fr, to_sq = to, piece = pc, capture = None, promotion = None,
      flag = Some ''castle'', castle = Some side\<rparr>"

definition generateKingMoves :: "state \<Rightarrow> int \<Rightarrow> char \<Rightarrow> move list" where
  "generateKingMoves s idx pc =
     (let steps =
            concat (map (\<lambda>dr. concat (map (\<lambda>df.
              if dr = 0 \<and> df = 0 then []
              else
                let file = js_rem idx 8 + df;
                    rank = idx div 8 + dr
                in if file < 0 \<or> file > 7 \<or> rank < 0 \<or> rank > 7 then []
                   else
                     let target = rank * 8 + file;
                         targetPiece = board_at (board s) target
                     in if targetPiece = None \<or> pieceColor targetPiece \<noteq> pieceColor (Some pc)
                        then [plainMove idx target pc targetPiece]
                        else []) [- 1, 0, 1])) [- 1, 0, 1]);
          white = (pc = CHR ''K'');
          b = board s;
          c = castling s;
          wK = (if white \<and> idx = sq ''e1'' \<and> cas_K c
                  \<and> board_at b (sq ''f1'') = None \<and> board_at b (sq ''g1'') = None
                  \<and> \<not> isSquareAttacked s idx False
                  \<and> \<not> isSquareAttacked s (sq ''f1'') False
                  \<and> \<not> isSquareAttacked s (sq ''g1'') False
                then [castleMove idx (sq ''g1'') pc CHR ''K''] else []);
          wQ = (if white \<and> idx = sq ''e1'' \<and> cas_Q c
                  \<and> board_at b (sq ''d1'') = None \<and> board_at b (sq ''c1'') = None
                  \<and> board_at b (sq ''b1'') = None
                  \<and> \<not> isSquareAttacked s idx False
                  \<and> \<not> isSquareAttacked s (sq ''d1'') False
                  \<and> \<not> isSquareAttacked s (sq ''c1'') False
                then [castleMove idx (sq ''c1'') pc CHR ''Q''] else []);
          bk = (if \<not> white \<and> idx = sq ''e8'' \<and> cas_k c
                  \<and> board_at b (sq ''f8'') = None \<and> board_at b (sq ''g8'') = None
                  \<and> \<not> isSquareAttacked s idx True
                  \<and> \<not> isSquareAttacked s (sq ''f8'') True
                  \<and> \<not> isSquareAttacked s (sq ''g8'') True
                then [castleMove idx (sq ''g8'') pc CHR ''k''] else []);
          bq = (if \<not> white \<and> idx = sq ''e8'' \<and> cas_q c
                  \<and> board_at b (sq ''d8'') = None \<and> board_at b (sq ''c8'') = None
                  \<and> board_at b (sq ''b8'') = None
                  \<and> \<not> isSquareAttacked s idx True
                  \<and> \<not> isSquareAttacked s (sq ''d8'') True
                  \<and> \<not> isSquareAttacked s (sq ''c8'') True
                then [castleMove idx (sq ''c8'') pc CHR ''q''] else [])
      in steps @ wK @ wQ @ bk @ bq)"

text \<open>The first loop of \<open>generateMoves\<close>: the scan of the 64 squares.\<close>

definition pseudoMoves :: "state \<Rightarrow> move list" where
  "pseudoMoves s =
     (let side = (if whiteToMove s then CHR ''w'' else CHR ''b'')
      in concat (map (\<lambda>i.
           case board_at (board s) i of
             None \<Rightarrow> []
           | Some pc \<Rightarrow>
               if pieceColor (Some pc) \<noteq> Some side then []
               else
                 let l = toLowerCase pc in
                 if l = CHR ''p'' then generatePawnMoves s i pc
                 else if l = CHR ''n'' then generateJumpMoves s i pc KNIGHT_DELTAS
                 else if l = CHR ''b'' then generateSlideMoves s i pc BISHOP_DELTAS
                 else if l = CHR ''r'' then generateSlideMoves s i pc ROOK_DELTAS
                 else if l = CHR ''q'' then generateSlideMoves s i pc QUEEN_DELTAS
                 else if l = CHR ''k'' then generateKingMoves s i pc
                 else []) [0..63]))"

text \<open>The second loop: each candidate is applied to the position, the king of \<open>side\<close> is
  looked up, the attack query is made with \<open>!state.whiteToMove\<close> as it stands after the
  move, and the move is reverted. The position is threaded through, since the source
  mutates it.\<close>

fun filterLegal :: "char \<Rightarrow> state \<Rightarrow> move list \<Rightarrow> move list \<times> state" where
  "filterLegal side s [] = ([], s)"
| "filterLegal side s (m # ms) =
     (let (s1, un) = makeMove s m;
          kingIdx = findKing s1 (side = CHR ''w'');
          inCheck = isSquareAttacked s1 kingIdx (\<not> whiteToMove s1);
          s2 = undoMove s1 un;
          (legal, s3) = filterLegal side s2 ms
      in (if inCheck then legal else m # legal, s3))"

definition generateMoves :: "state \<Rightarrow> move list \<times> state" where
  "generateMoves s =
     filterLegal (if whiteToMove s then CHR ''w'' else CHR ''b'') s (pseudoMoves s)"

subsection \<open>Evaluation\<close>

definition PIECE_VALUES :: "char \<Rightarrow> int option" where
  "PIECE_VALUES c =
     (if c = CHR ''p'' then Some 100 else if c = CHR ''n'' then Some 320
      else if c = CHR ''b'' then Some 330 else if c = CHR ''r'' then Some 500
      else if c = CHR ''q'' then Some 900 else if c = CHR ''k'' then Some 20000
      else None)"

definition positionalBonus :: "char \<Rightarrow> int \<Rightarrow> int" where
  "positionalBonus pc idx =
     (let rank = idx div 8;
          file = js_rem idx 8;
          b1 = (if toLowerCase pc = CHR ''p''
                then (if pc = CHR ''P'' then rank * 2 else (7 - rank) * 2)
                     + (if file = 3 \<or> file = 4 then 2 else 0)
                else 0);
          b2 = (if toLowerCase pc = CHR ''n''
                then (if file \<ge> 2 \<and> file \<le> 5 \<and> rank \<ge> 2 \<and> rank \<le> 5 then b1 + 10 else b1)
                else b1)
      in if toLowerCase pc = CHR ''b''
         then (if js_rem (file + rank) 2 = 0 then b2 + 1 else b2)
         else b2)"

definition evaluate :: "state \<Rightarrow> int" where
  "evaluate s =
     fold (\<lambda>i score.
       case board_at (board s) i of
         None \<Rightarrow> score
       | Some pc \<Rightarrow>
           let v = (case PIECE_VALUES (toLowerCase pc) of Some x \<Rightarrow> x | None \<Rightarrow> 0);
               positional = positionalBonus pc i
           in score + (if pc = toUpperCase pc then 1 else - 1) * (v + positional))
       [0..63] 0"

subsection \<open>Search\<close>

text \<open>Scores are integers; the window bounds and the running best score also take the
  values \<open>-Infinity\<close> and \<open>Infinity\<close>.\<close>

datatype ext = MInf | Fin int | PInf

fun ext_less :: "ext \<Rightarrow> ext \<Rightarrow> bool" where
  "ext_less MInf MInf = False"
| "ext_less MInf _ = True"
| "ext_less (Fin a) (Fin b) = (a < b)"
| "ext_less (Fin a) PInf = True"
| "ext_less (Fin a) MInf = False"
| "ext_less PInf _ = False"

definition ext_le :: "ext \<Rightarrow> ext \<Rightarrow> bool" where
  "ext_le a b = (a = b \<or> ext_less a b)"

definition ext_max :: "ext \<Rightarrow> ext \<Rightarrow> ext" where
  "ext_max a b = (if ext_less a b then b else a)"

definition ext_min :: "ext \<Rightarrow> ext \<Rightarrow> ext" where
  "ext_min a b = (if ext_less b a then b else a)"

record result =
  score :: ext
  r_move :: "move option"

text \<open>The two move loops of \<open>search\<close>. \<open>rec\<close> is the recursive call at \<open>depth - 1\<close>; it
  yields \<open>None\<close> when the recursion does not return. Each step applies the move, recurses,
  reverts, updates the best score and the window, and leaves the loop on \<open>beta <= alpha\<close>.\<close>

fun maxLoop ::
  "(state \<Rightarrow> ext \<Rightarrow> ext \<Rightarrow> (result \<times> state) option) \<Rightarrow> move list \<Rightarrow> state \<Rightarrow> ext \<Rightarrow> ext
     \<Rightarrow> ext \<Rightarrow> move option \<Rightarrow> (result \<times> state) option" where
  "maxLoop rec [] s alpha beta bestScore bestMove =
     Some (\<lparr>score = bestScore, r_move = bestMove\<rparr>, s)"
| "maxLoop rec (m # ms) s alpha beta bestScore bestMove =
     (let (s1, un) = makeMove s m in
      case rec s1 alpha beta of
        None \<Rightarrow> None
      | Some (r, s2) \<Rightarrow>
          let s3 = undoMove s2 un;
              better = ext_less bestScore (score r);
              bestScore' = (if better then score r else bestScore);
              bestMove' = (if better then Some m else bestMove);
              alpha' = ext_max alpha (score r)
          in if ext_le beta alpha'
             then Some (\<lparr>score = bestScore', r_move = bestMove'\<rparr>, s3)
             else maxLoop rec ms s3 alpha' beta bestScore' bestMove')"

fun minLoop ::
  "(state \<Rightarrow> ext \<Rightarrow> ext \<Rightarrow> (result \<times> state) option) \<Rightarrow> move list \<Rightarrow> state \<Rightarrow> ext \<Rightarrow> ext
     \<Rightarrow> ext \<Rightarrow> move option \<Rightarrow> (result \<times> state) option" where
  "minLoop rec [] s alpha beta bestScore bestMove =
     Some (\<lparr>score = bestScore, r_move = bestMove\<rparr>, s)"
| "minLoop rec (m # ms) s alpha beta bestScore bestMove =
     (let (s1, un) = makeMove s m in
      case rec s1 alpha beta of
        None \<Rightarrow> None
      | Some (r, s2) \<Rightarrow>
          let s3 = undoMove s2 un;
              better = ext_less (score r) bestScore;
              bestScore' = (if better then score r else bestScore);
              bestMove' = (if better then Some m else bestMove);
              beta' = ext_min beta (score r)
          in if ext_le beta' alpha
             then Some (\<lparr>score = bestScore', r_move = bestMove'\<rparr>, s3)
             else minLoop rec ms s3 alpha beta' bestScore' bestMove')"

text \<open>\<open>search\<close> recurses on \<open>depth - 1\<close> and stops at \<open>depth === 0\<close>, so a call with a
  negative depth need not return. The first argument bounds the nesting of calls: the
  result is \<open>None\<close> when the bound is used up, and \<open>Some\<close> of the returned object and the
  position left behind otherwise.\<close>

fun search :: "nat \<Rightarrow> state \<Rightarrow> int \<Rightarrow> ext \<Rightarrow> ext \<Rightarrow> (result \<times> state) option" where
  "search 0 s depth alpha beta = None"
| "search (Suc n) s depth alpha beta =
     (if depth = 0 then Some (\<lparr>score = Fin (evaluate s), r_move = None\<rparr>, s)
      else
        let (moves, s1) = generateMoves s in
        if length moves = 0 then
          (let kingIdx = findKing s1 (whiteToMove s1);
               inCheck = isSquareAttacked s1 kingIdx (\<not> whiteToMove s1)
           in if inCheck
              then Some (\<lparr>score = Fin (if whiteToMove s1 then - 100000 + depth
                                          else 100000 - depth), r_move = None\<rparr>, s1)
              else Some (\<lparr>score = Fin 0, r_move = None\<rparr>, s1))
        else if whiteToMove s1
        then maxLoop (\<lambda>s' a b. search n s' (depth - 1) a b) moves s1 alpha beta MInf None
        else minLoop (\<lambda>s' a b. search n s' (depth - 1) a b) moves s1 alpha beta PInf None)"

subsection \<open>Position text\<close>

datatype error = TypeError

text \<open>\<open>text.split(sep)\<close> for a one-character separator: empty pieces are kept, and the
  empty text splits into one empty piece.\<close>

fun splitOn :: "char \<Rightarrow> string \<Rightarrow> string list" where
  "splitOn sep [] = [[]]"
| "splitOn sep (c # cs) =
     (if c = sep then [] # splitOn sep cs
      else (case splitOn sep cs of [] \<Rightarrow> [[c]] | w # ws \<Rightarrow> (c # w) # ws))"

definition nthOpt :: "'a list \<Rightarrow> nat \<Rightarrow> 'a option" where
  "nthOpt xs i = (if i < length xs then Some (xs ! i) else None)"

fun numAdd :: "number \<Rightarrow> number \<Rightarrow> number" where
  "numAdd (Num a) (Num b) = Num (a + b)"
| "numAdd _ _ = NaN"

text \<open>The characters of one rank. \<open>!isNaN(char)\<close> holds of a digit and of a white-space
  character (which converts to 0); \<open>parseInt\<close> of the latter is \<open>NaN\<close>, and from then on
  \<open>file\<close> is \<open>NaN\<close> and the writes land on the property \<open>NaN\<close>, not on a slot.\<close>

fun parseRank :: "string \<Rightarrow> int \<Rightarrow> number \<Rightarrow> square list \<Rightarrow> square list" where
  "parseRank [] r file b = b"
| "parseRank (c # cs) r file b =
     (if isDigit c \<or> isSpace c then parseRank cs r (numAdd file (parseInt [c])) b
      else (case file of
              NaN \<Rightarrow> parseRank cs r NaN b
            | Num f \<Rightarrow> parseRank cs r (Num (f + 1)) (board_set b (r * 8 + f) (Some c))))"

text \<open>The loop over \<open>r\<close>: iterating over an absent rank raises a \<open>TypeError\<close>.\<close>

fun parseRanks :: "string list \<Rightarrow> int list \<Rightarrow> square list \<Rightarrow> error + square list" where
  "parseRanks ranks [] b = Inr b"
| "parseRanks ranks (r # rs) b =
     (case nthOpt ranks (nat (7 - r)) of
        None \<Rightarrow> Inl TypeError
      | Some rk \<Rightarrow> parseRanks ranks rs (parseRank rk r (Num 0) b))"

definition setCastling :: "char \<Rightarrow> castling_rights \<Rightarrow> castling_rights" where
  "setCastling c cs =
     (if c = CHR ''K'' then cs\<lparr>cas_K := True\<rparr>
      else if c = CHR ''Q'' then cs\<lparr>cas_Q := True\<rparr>
      else if c = CHR ''k'' then cs\<lparr>cas_k := True\<rparr>
      else if c = CHR ''q'' then cs\<lparr>cas_q := True\<rparr>
      else cs)"

text \<open>\<open>x || d\<close> on an optional text: \<open>undefined\<close> and the empty text give \<open>d\<close>.\<close>

definition orText :: "string option \<Rightarrow> string \<Rightarrow> string" where
  "orText x d = (case x of None \<Rightarrow> d | Some t \<Rightarrow> if t = [] then d else t)"

definition fenToState :: "string \<Rightarrow> error + state" where
  "fenToState fen =
     (let parts = splitOn CHR '' '' fen;
          boardPart = (case parts of [] \<Rightarrow> [] | p # _ \<Rightarrow> p);
          turn = nthOpt parts 1;
          castlingPart = nthOpt parts 2;
          epPart = nthOpt parts 3;
          halfmoveT = nthOpt parts 4;
          fullmoveT = nthOpt parts 5;
          ranks = splitOn CHR ''/'' boardPart
      in case parseRanks ranks [0..7] (replicate 64 None) of
           Inl e \<Rightarrow> Inl e
         | Inr b \<Rightarrow>
             let c0 = \<lparr>cas_K = False, cas_Q = False, cas_k = False, cas_q = False\<rparr>;
                 c = (case castlingPart of
                        None \<Rightarrow> c0
                      | Some cp \<Rightarrow> if cp \<noteq> [] \<and> cp \<noteq> ''-'' then fold setCastling cp c0 else c0)
             in case epPart of
                  None \<Rightarrow> Inl TypeError
                | Some ep \<Rightarrow>
                    Inr \<lparr>board = b,
                         whiteToMove = (turn = Some ''w''),
                         castling = c,
                         enPassant = (if ep = ''-'' then Num (- 1) else squareToIndex ep),
                         halfmove = parseInt (orText halfmoveT ''0''),
                         fullmove = parseInt (orText fullmoveT ''1'')\<rparr>)"

fun rankText :: "square list \<Rightarrow> int \<Rightarrow> int list \<Rightarrow> int \<Rightarrow> string" where
  "rankText b r [] emp = (if emp > 0 then showInt emp else [])"
| "rankText b r (f # fs) emp =
     (case board_at b (r * 8 + f) of
        Some pc \<Rightarrow> (if emp > 0 then showInt emp else []) @ pc # rankText b r fs 0
      | None \<Rightarrow> rankText b r fs (emp + 1))"

definition generateFEN :: "state \<Rightarrow> string" where
  "generateFEN s =
     (let boardPart =
            concat (map (\<lambda>r. rankText (board s) r [0..7] 0 @ (if r \<noteq> 0 then ''/'' else []))
              (rev [0..7]));
          turn = (if whiteToMove s then ''w'' else ''b'');
          c = castling s;
          rights = (if cas_K c then ''K'' else []) @ (if cas_Q c then ''Q'' else [])
                   @ (if cas_k c then ''k'' else []) @ (if cas_q c then ''q'' else []);
          castlingRights = (if rights = [] then ''-'' else rights);
          ep = (if enPassant s = Num (- 1) then ''-'' else indexToSquare (enPassant s))
      in boardPart @ '' '' @ turn @ '' '' @ castlingRights @ '' '' @ ep @ '' ''
         @ showNumber (halfmove s) @ '' '' @ showNumber (fullmove s))"

subsection \<open>The facade\<close>

text \<open>The \<open>depth\<close> option is absent (\<open>None\<close>) or a number. \<open>options.depth || d\<close> yields
  \<open>d\<close> when the option is absent, \<open>NaN\<close> or 0.\<close>

record options =
  opt_depth :: "number option"

definition depthOr :: "number option \<Rightarrow> int \<Rightarrow> int" where
  "depthOr v d = (case v of None \<Rightarrow> d | Some NaN \<Rightarrow> d | Some (Num n) \<Rightarrow> if n = 0 then d else n)"

definition moveToAlgebraic :: "move \<Rightarrow> string" where
  "moveToAlgebraic m =
     indexToSquare (Num (from_sq m)) @ indexToSquare (Num (to_sq m))
     @ (case promotion m of None \<Rightarrow> [] | Some p \<Rightarrow> [CHR ''='', toUpperCase p])"

text \<open>The source returns \<open>evaluation = score / 100\<close>, a floating-point quotient; the model
  keeps the score itself, in hundredths of a pawn.\<close>

record analysis =
  bestMove :: "string option"
  evaluation_x100 :: ext
  depth :: int
  moveObject :: "move option"

definition analyzePosition :: "nat \<Rightarrow> string \<Rightarrow> options \<Rightarrow> (error + analysis) option" where
  "analyzePosition fuel fen opts =
     (let d = depthOr (opt_depth opts) 3 in
      case fenToState fen of
        Inl e \<Rightarrow> Some (Inl e)
      | Inr st \<Rightarrow>
          let cloned = cloneState st in
          case search fuel cloned d MInf PInf of
            None \<Rightarrow> None
          | Some (res, _) \<Rightarrow>
              Some (Inr \<lparr>bestMove = map_option moveToAlgebraic (r_move res),
                         evaluation_x100 = score res,
                         depth = d,
                         moveObject = r_move res\<rparr>))"

record chessEngine =
  eng_depth :: int

definition ChessEngine :: "options \<Rightarrow> chessEngine" where
  "ChessEngine opts = \<lparr>eng_depth = depthOr (opt_depth opts) 3\<rparr>"

definition ChessEngine_analyzePosition ::
  "nat \<Rightarrow> chessEngine \<Rightarrow> string \<Rightarrow> options \<Rightarrow> (error + analysis) option" where
  "ChessEngine_analyzePosition fuel this fen opts =
     (let d = depthOr (opt_depth opts) (eng_depth this) in
      case analyzePosition fuel fen \<lparr>opt_depth = Some (Num d)\<rparr> of
        None \<Rightarrow> None
      | Some (Inl e) \<Rightarrow> Some (Inl e)
      | Some (Inr res) \<Rightarrow>
          Some (Inr \<lparr>bestMove = bestMove res, evaluation_x100 = evaluation_x100 res,
                     depth = depth res, moveObject = moveObject res\<rparr>))"

subsection \<open>Objects and references\<close>

text \<open>
  The position object of the source holds references to two further objects, the board
  array and the castling object. To speak about sharing, the store below maps references
  to these objects. \<open>cloneState\<close> allocates a new array (\<open>slice\<close>), a new castling object
  (the spread) and a new position object. \<open>makeMove\<close> assigns to slots of
  \<open>state.board\<close>, to fields of \<open>state.castling\<close> and to fields of \<open>state\<close>, and never
  replaces the two references; \<open>undoMove\<close> does the same, except that it makes
  \<open>state.castling\<close> refer to a new object. The values written are those of the functions
  above. The rights an undo record keeps are a copy of its own, held by value.
\<close>

type_synonym ref = nat

record state_obj =
  o_board :: ref
  o_whiteToMove :: bool
  o_castling :: ref
  o_enPassant :: number
  o_halfmove :: number
  o_fullmove :: number

record heap =
  arrays :: "ref \<Rightarrow> square list option"
  rights :: "ref \<Rightarrow> castling_rights option"
  states :: "ref \<Rightarrow> state_obj option"
  next_ref :: ref

text \<open>The position a reference denotes: the fields of the object, its two references
  followed.\<close>

definition deref :: "heap \<Rightarrow> ref \<Rightarrow> state option" where
  "deref h a =
     (case states h a of
        None \<Rightarrow> None
      | Some ob \<Rightarrow>
          (case arrays h (o_board ob) of
             None \<Rightarrow> None
           | Some b \<Rightarrow>
               (case rights h (o_castling ob) of
                  None \<Rightarrow> None
                | Some c \<Rightarrow>
                    Some \<lparr>board = b, whiteToMove = o_whiteToMove ob, castling = c,
                          enPassant = o_enPassant ob, halfmove = o_halfmove ob,
                          fullmove = o_fullmove ob\<rparr>)))"

definition cloneState_h :: "heap \<Rightarrow> ref \<Rightarrow> (heap \<times> ref) option" where
  "cloneState_h h a =
     (case deref h a of
        None \<Rightarrow> None
      | Some s \<Rightarrow>
          let s' = cloneState s;
              rb = next_ref h;
              rc = next_ref h + 1;
              rs = next_ref h + 2
          in Some (h\<lparr>arrays := (arrays h)(rb := Some (board s')),
                     rights := (rights h)(rc := Some (castling s')),
                     states := (states h)(rs := Some
                       \<lparr>o_board = rb, o_whiteToMove = whiteToMove s', o_castling = rc,
                        o_enPassant = enPassant s', o_halfmove = halfmove s',
                        o_fullmove = fullmove s'\<rparr>),
                     next_ref := next_ref h + 3\<rparr>, rs))"

definition makeMove_h :: "heap \<Rightarrow> ref \<Rightarrow> move \<Rightarrow> (heap \<times> undo) option" where
  "makeMove_h h a m =
     (case states h a of
        None \<Rightarrow> None
      | Some ob \<Rightarrow>
          (case deref h a of
             None \<Rightarrow> None
           | Some s \<Rightarrow>
               let (s', un) = makeMove s m
               in Some (h\<lparr>arrays := (arrays h)(o_board ob := Some (board s')),
                          rights := (rights h)(o_castling ob := Some (castling s')),
                          states := (states h)(a := Some
                            (ob\<lparr>o_whiteToMove := whiteToMove s', o_enPassant := enPassant s',
                                o_halfmove := halfmove s', o_fullmove := fullmove s'\<rparr>))\<rparr>,
                        un)))"

definition undoMove_h :: "heap \<Rightarrow> ref \<Rightarrow> undo \<Rightarrow> heap option" where
  "undoMove_h h a un =
     (case states h a of
        None \<Rightarrow> None
      | Some ob \<Rightarrow>
          (case deref h a of
             None \<Rightarrow> None
           | Some s \<Rightarrow>
               let s' = undoMove s un;
                   rc = next_ref h
               in Some (h\<lparr>arrays := (arrays h)(o_board ob := Some (board s')),
                          rights := (rights h)(rc := Some (castling s')),
                          states := (states h)(a := Some
                            (ob\<lparr>o_whiteToMove := whiteToMove s', o_castling := rc,
                                o_enPassant := enPassant s', o_halfmove := halfmove s',
                                o_fullmove := fullmove s'\<rparr>)),
                          next_ref := next_ref h + 1\<rparr>)))"

text \<open>A sequence of \<open>makeMove\<close> and \<open>undoMove\<close> calls on one position object.\<close>

datatype call = MakeMove move | UndoMove undo

fun run_calls :: "heap \<Rightarrow> ref \<Rightarrow> call list \<Rightarrow> heap option" where
  "run_calls h a [] = Some h"
| "run_calls h a (MakeMove m # cs) =
     (case makeMove_h h a m of None \<Rightarrow> None | Some (h', un) \<Rightarrow> run_calls h' a cs)"
| "run_calls h a (UndoMove un # cs) =
     (case undoMove_h h a un of None \<Rightarrow> None | Some h' \<Rightarrow> run_calls h' a cs)"

subsection \<open>Example positions\<close>

text \<open>Positions the properties below are evaluated on, each the parse of the text given
  with it.\<close>

text \<open>\<open>7k/8/8/8/8/8/8/K6r w - - 0 1\<close>: White's king on a1 is in check from the rook on h1.\<close>

definition checkPosition :: state where
  "checkPosition =
     \<lparr>board = (replicate 64 None)
        [0 := Some CHR ''K'', 7 := Some CHR ''r'', 63 := Some CHR ''k''],
      whiteToMove = True,
      castling = \<lparr>cas_K = False, cas_Q = False, cas_k = False, cas_q = False\<rparr>,
      enPassant = Num (- 1), halfmove = Num 0, fullmove = Num 1\<rparr>"

text \<open>\<open>4k3/8/8/3pP3/8/8/8/4K3 w - d6 0 1\<close>: Black has just played d7-d5, and White's pawn on
  e5 may capture en passant on d6.\<close>

definition epPosition :: state where
  "epPosition =
     \<lparr>board = (replicate 64 None)
        [4 := Some CHR ''K'', 35 := Some CHR ''p'', 36 := Some CHR ''P'', 60 := Some CHR ''k''],
      whiteToMove = True,
      castling = \<lparr>cas_K = False, cas_Q = False, cas_k = False, cas_q = False\<rparr>,
      enPassant = Num 43, halfmove = Num 0, fullmove = Num 1\<rparr>"

text \<open>\<open>6k1/8/8/8/8/8/5nPP/5rRK w - - 0 1\<close>: a smothered mate; the knight on f2 gives check
  and White has no legal move.\<close>

definition matePosition :: state where
  "matePosition =
     \<lparr>board = (replicate 64 None)
        [5 := Some CHR ''r'', 6 := Some CHR ''R'', 7 := Some CHR ''K'', 13 := Some CHR ''n'',
         14 := Some CHR ''P'', 15 := Some CHR ''P'', 62 := Some CHR ''k''],
      whiteToMove = True,
      castling = \<lparr>cas_K = False, cas_Q = False, cas_k = False, cas_q = False\<rparr>,
      enPassant = Num (- 1), halfmove = Num 0, fullmove = Num 1\<rparr>"

text \<open>\<open>6k1/8/8/8/8/8/6PP/5rRK w - - 0 1\<close>: the same without the knight; White is not in
  check.\<close>

definition quietPosition :: state where
  "quietPosition =
     \<lparr>board = (replicate 64 None)
        [5 := Some CHR ''r'', 6 := Some CHR ''R'', 7 := Some CHR ''K'',
         14 := Some CHR ''P'', 15 := Some CHR ''P'', 62 := Some CHR ''k''],
      whiteToMove = True,
      castling = \<lparr>cas_K = False, cas_Q = False, cas_k = False, cas_q = False\<rparr>,
      enPassant = Num (- 1), halfmove = Num 0, fullmove = Num 1\<rparr>"

section \<open>Properties\<close>

subsection \<open>Evaluation on concrete positions\<close>

text \<open>Facts used to compute the functions above on given positions.\<close>

lemma list_update_numeral: "(x # xs)[numeral n := v] = x # xs[pred_numeral n := v]"
  by (simp add: numeral_eq_Suc)

lemma upto_0_7: "[0..7] = [0, 1, 2, 3, 4, 5, 6, 7 :: int]"
  by code_simp

lemma upto_0_63: "[0..63] = concat (map (\<lambda>r. map (\<lambda>f. r * 8 + f) [0..7]) [0..7 :: int])"
  by code_simp

lemma replicate_64:
  "replicate 64 (None :: square) =
     [None, None, None, None, None, None, None, None, None, None, None, None, None, None,
      None, None, None, None, None, None, None, None, None, None, None, None, None, None,
      None, None, None, None, None, None, None, None, None, None, None, None, None, None,
      None, None, None, None, None, None, None, None, None, None, None, None, None, None,
      None, None, None, None, None, None, None, None]"
  by code_simp

lemma lower_simps:
  "toLowerCase CHR ''K'' = CHR ''k''"
  "toLowerCase CHR ''Q'' = CHR ''q''"
  "toLowerCase CHR ''R'' = CHR ''r''"
  "toLowerCase CHR ''B'' = CHR ''b''"
  "toLowerCase CHR ''N'' = CHR ''n''"
  "toLowerCase CHR ''P'' = CHR ''p''"
  "toLowerCase CHR ''k'' = CHR ''k''"
  "toLowerCase CHR ''q'' = CHR ''q''"
  "toLowerCase CHR ''r'' = CHR ''r''"
  "toLowerCase CHR ''b'' = CHR ''b''"
  "toLowerCase CHR ''n'' = CHR ''n''"
  "toLowerCase CHR ''p'' = CHR ''p''"
  by code_simp+

lemma upper_simps:
  "toUpperCase CHR ''K'' = CHR ''K''"
  "toUpperCase CHR ''Q'' = CHR ''Q''"
  "toUpperCase CHR ''R'' = CHR ''R''"
  "toUpperCase CHR ''B'' = CHR ''B''"
  "toUpperCase CHR ''N'' = CHR ''N''"
  "toUpperCase CHR ''P'' = CHR ''P''"
  "toUpperCase CHR ''k'' = CHR ''K''"
  "toUpperCase CHR ''q'' = CHR ''Q''"
  "toUpperCase CHR ''r'' = CHR ''R''"
  "toUpperCase CHR ''b'' = CHR ''B''"
  "toUpperCase CHR ''n'' = CHR ''N''"
  "toUpperCase CHR ''p'' = CHR ''P''"
  by code_simp+

lemma sq_simps:
  "sq ''a1'' = 0"
  "sq ''b1'' = 1"
  "sq ''c1'' = 2"
  "sq ''d1'' = 3"
  "sq ''e1'' = 4"
  "sq ''f1'' = 5"
  "sq ''g1'' = 6"
  "sq ''h1'' = 7"
  "sq ''a8'' = 56"
  "sq ''b8'' = 57"
  "sq ''c8'' = 58"
  "sq ''d8'' = 59"
  "sq ''e8'' = 60"
  "sq ''f8'' = 61"
  "sq ''g8'' = 62"
  "sq ''h8'' = 63"
  by code_simp+

lemmas ev = list_update_numeral upto_0_7 upto_0_63 replicate_64 lower_simps upper_simps sq_simps
  fenToState_def nthOpt_def parseInt_def parseDigits_def isDigit_def isSpace_def digitVal_def
  orText_def setCastling_def squareToIndex_def charAt_def parseIntOpt_def FILES_def
  board_at_def board_set_def js_rem_def
  makeMove_def undoMove_def KNIGHT_DELTAS_def BISHOP_DELTAS_def ROOK_DELTAS_def QUEEN_DELTAS_def
  pieceColor_def inBounds_def isSquareAttacked_def findKing_def plainMove_def addPawnMove_def
  generatePawnMoves_def generateJumpMoves_def generateSlideMoves_def castleMove_def
  generateKingMoves_def pseudoMoves_def PIECE_VALUES_def positionalBonus_def evaluate_def Let_def

text \<open>The filter loop, when every candidate's revert restores the position: each
  candidate is then judged on the same position, and \<open>keeps\<close> lists the verdicts.\<close>

lemma filterLegal_eval:
  "list_all2 (\<lambda>m keep. case makeMove s m of (s1, un) \<Rightarrow>
       undoMove s1 un = s \<and>
       (\<not> isSquareAttacked s1 (findKing s1 (side = CHR ''w'')) (\<not> whiteToMove s1)) = keep)
     ms keeps \<Longrightarrow>
   filterLegal side s ms = (map fst (filter snd (zip ms keeps)), s)"
proof (induction ms arbitrary: keeps)
  case Nil
  then show ?case by simp
next
  case (Cons m ms)
  then obtain k ks where ks: "keeps = k # ks" by (cases keeps) auto
  with Cons show ?case by (auto simp add: Let_def split_beta)
qed

lemma filterLegal_append:
  "filterLegal side s (xs @ ys) =
     (let (l1, s1) = filterLegal side s xs; (l2, s2) = filterLegal side s1 ys
      in (l1 @ l2, s2))"
  by (induction xs arbitrary: s) (simp_all add: Let_def split_beta)

lemma search_no_moves:
  "generateMoves s = ([], s') \<Longrightarrow> d \<noteq> 0 \<Longrightarrow>
   search (Suc n) s d alpha beta =
     Some (\<lparr>score = Fin (if isSquareAttacked s' (findKing s' (whiteToMove s')) (\<not> whiteToMove s')
                           then (if whiteToMove s' then - 100000 + d else 100000 - d)
                           else 0),
            r_move = None\<rparr>, s')"
  by (simp add: Let_def)

lemma check_parse: "fenToState ''7k/8/8/8/8/8/8/K6r w - - 0 1'' = Inr checkPosition"
  unfolding checkPosition_def by (simp add: ev cong: let_weak_cong prod.case_cong_weak)

lemma check_pseudo:
  "pseudoMoves checkPosition =
     [plainMove 0 1 CHR ''K'' None, plainMove 0 8 CHR ''K'' None, plainMove 0 9 CHR ''K'' None]"
  unfolding checkPosition_def by (simp add: ev cong: let_weak_cong prod.case_cong_weak)

lemma check_filter:
  "list_all2 (\<lambda>m keep. case makeMove checkPosition m of (s1, un) \<Rightarrow>
       undoMove s1 un = checkPosition \<and>
       (\<not> isSquareAttacked s1 (findKing s1 (CHR ''w'' = CHR ''w'')) (\<not> whiteToMove s1)) = keep)
     [plainMove 0 1 CHR ''K'' None, plainMove 0 8 CHR ''K'' None, plainMove 0 9 CHR ''K'' None]
     [True, True, True]"
  unfolding list_all2_Cons list_all2_Nil checkPosition_def
  by (simp add: ev cong: let_weak_cong prod.case_cong_weak)

lemma check_gen:
  "generateMoves checkPosition =
     ([plainMove 0 1 CHR ''K'' None, plainMove 0 8 CHR ''K'' None, plainMove 0 9 CHR ''K'' None],
      checkPosition)"
proof -
  have "whiteToMove checkPosition" by (simp add: checkPosition_def)
  then show ?thesis
    by (simp add: generateMoves_def check_pseudo filterLegal_eval[OF check_filter]
          del: filterLegal.simps)
qed

lemma check_after_move:
  "(case makeMove checkPosition (plainMove 0 1 CHR ''K'' None) of
      (s1, un) \<Rightarrow> (findKing s1 True, isSquareAttacked s1 (findKing s1 True) False)) = (1, True)"
  unfolding checkPosition_def by (simp add: ev cong: let_weak_cong prod.case_cong_weak)

lemma mate_parse: "fenToState ''6k1/8/8/8/8/8/5nPP/5rRK w - - 0 1'' = Inr matePosition"
  unfolding matePosition_def by (simp add: ev cong: let_weak_cong prod.case_cong_weak)

lemma mate_pseudo:
  "pseudoMoves matePosition =
     [plainMove 6 5 CHR ''R'' (Some CHR ''r''),
      plainMove 14 22 CHR ''P'' None, (plainMove 14 30 CHR ''P'' None)\<lparr>flag := Some ''double''\<rparr>,
      plainMove 15 23 CHR ''P'' None, (plainMove 15 31 CHR ''P'' None)\<lparr>flag := Some ''double''\<rparr>]"
  unfolding matePosition_def by (simp add: ev cong: let_weak_cong prod.case_cong_weak)

lemma mate_filter:
  "list_all2 (\<lambda>m keep. case makeMove matePosition m of (s1, un) \<Rightarrow>
       undoMove s1 un = matePosition \<and>
       (\<not> isSquareAttacked s1 (findKing s1 (CHR ''w'' = CHR ''w'')) (\<not> whiteToMove s1)) = keep)
     [plainMove 6 5 CHR ''R'' (Some CHR ''r''),
      plainMove 14 22 CHR ''P'' None, (plainMove 14 30 CHR ''P'' None)\<lparr>flag := Some ''double''\<rparr>,
      plainMove 15 23 CHR ''P'' None, (plainMove 15 31 CHR ''P'' None)\<lparr>flag := Some ''double''\<rparr>]
     [False, False, False, False, False]"
  unfolding list_all2_Cons list_all2_Nil matePosition_def
  by (simp add: ev cong: let_weak_cong prod.case_cong_weak)

lemma mate_gen: "generateMoves matePosition = ([], matePosition)"
proof -
  have "whiteToMove matePosition" by (simp add: matePosition_def)
  then show ?thesis
    by (simp add: generateMoves_def mate_pseudo filterLegal_eval[OF mate_filter]
          del: filterLegal.simps)
qed

lemma mate_check: "isSquareAttacked matePosition (findKing matePosition True) False"
  unfolding matePosition_def by (simp add: ev cong: let_weak_cong prod.case_cong_weak)

lemma quiet_parse: "fenToState ''6k1/8/8/8/8/8/6PP/5rRK w - - 0 1'' = Inr quietPosition"
  unfolding quietPosition_def by (simp add: ev cong: let_weak_cong prod.case_cong_weak)

lemma quiet_pseudo:
  "pseudoMoves quietPosition =
     [plainMove 6 5 CHR ''R'' (Some CHR ''r''),
      plainMove 14 22 CHR ''P'' None, (plainMove 14 30 CHR ''P'' None)\<lparr>flag := Some ''double''\<rparr>,
      plainMove 15 23 CHR ''P'' None, (plainMove 15 31 CHR ''P'' None)\<lparr>flag := Some ''double''\<rparr>]"
  unfolding quietPosition_def by (simp add: ev cong: let_weak_cong prod.case_cong_weak)

lemma quiet_filter:
  "list_all2 (\<lambda>m keep. case makeMove quietPosition m of (s1, un) \<Rightarrow>
       undoMove s1 un = quietPosition \<and>
       (\<not> isSquareAttacked s1 (findKing s1 (CHR ''w'' = CHR ''w'')) (\<not> whiteToMove s1)) = keep)
     [plainMove 6 5 CHR ''R'' (Some CHR ''r''),
      plainMove 14 22 CHR ''P'' None, (plainMove 14 30 CHR ''P'' None)\<lparr>flag := Some ''double''\<rparr>,
      plainMove 15 23 CHR ''P'' None, (plainMove 15 31 CHR ''P'' None)\<lparr>flag := Some ''double''\<rparr>]
     [False, False, False, False, False]"
  unfolding list_all2_Cons list_all2_Nil quietPosition_def
  by (simp add: ev cong: let_weak_cong prod.case_cong_weak)

lemma quiet_gen: "generateMoves quietPosition = ([], quietPosition)"
proof -
  have "whiteToMove quietPosition" by (simp add: quietPosition_def)
  then show ?thesis
    by (simp add: generateMoves_def quiet_pseudo filterLegal_eval[OF quiet_filter]
          del: filterLegal.simps)
qed

lemma quiet_unattacked:
  "\<not> isSquareAttacked quietPosition (findKing quietPosition (whiteToMove quietPosition))
       (\<not> whiteToMove quietPosition)"
  unfolding quietPosition_def by (simp add: ev cong: let_weak_cong prod.case_cong_weak)

lemma ep_parse: "fenToState ''4k3/8/8/3pP3/8/8/8/4K3 w - d6 0 1'' = Inr epPosition"
  unfolding epPosition_def by (simp add: ev cong: let_weak_cong prod.case_cong_weak)

lemma ep_pseudo:
  "pseudoMoves epPosition =
     [plainMove 4 3 CHR ''K'' None, plainMove 4 5 CHR ''K'' None, plainMove 4 11 CHR ''K'' None,
      plainMove 4 12 CHR ''K'' None, plainMove 4 13 CHR ''K'' None,
      plainMove 36 44 CHR ''P'' None]
     @ [(plainMove 36 43 CHR ''P'' (Some CHR ''p''))\<lparr>flag := Some ''enpassant''\<rparr>]"
  unfolding epPosition_def by (simp add: ev cong: let_weak_cong prod.case_cong_weak)

lemma ep_filter:
  "list_all2 (\<lambda>m keep. case makeMove epPosition m of (s1, un) \<Rightarrow>
       undoMove s1 un = epPosition \<and>
       (\<not> isSquareAttacked s1 (findKing s1 (CHR ''w'' = CHR ''w'')) (\<not> whiteToMove s1)) = keep)
     [plainMove 4 3 CHR ''K'' None, plainMove 4 5 CHR ''K'' None, plainMove 4 11 CHR ''K'' None,
      plainMove 4 12 CHR ''K'' None, plainMove 4 13 CHR ''K'' None,
      plainMove 36 44 CHR ''P'' None]
     [True, True, True, True, True, True]"
  unfolding list_all2_Cons list_all2_Nil epPosition_def
  by (simp add: ev cong: let_weak_cong prod.case_cong_weak)

lemma ep_last:
  "fst (filterLegal CHR ''w'' epPosition
          [(plainMove 36 43 CHR ''P'' (Some CHR ''p''))\<lparr>flag := Some ''enpassant''\<rparr>])
     = [(plainMove 36 43 CHR ''P'' (Some CHR ''p''))\<lparr>flag := Some ''enpassant''\<rparr>]"
proof -
  have "filterLegal CHR ''w'' epPosition
          [(plainMove 36 43 CHR ''P'' (Some CHR ''p''))\<lparr>flag := Some ''enpassant''\<rparr>]
        = ([(plainMove 36 43 CHR ''P'' (Some CHR ''p''))\<lparr>flag := Some ''enpassant''\<rparr>],
           epPosition\<lparr>board := (board epPosition)[35 := None, 51 := Some CHR ''p'']\<rparr>)"
    unfolding epPosition_def by (simp add: ev cong: let_weak_cong prod.case_cong_weak)
  then show ?thesis by simp
qed

lemma ep_gen:
  "(plainMove 36 43 CHR ''P'' (Some CHR ''p''))\<lparr>flag := Some ''enpassant''\<rparr>
     \<in> set (fst (generateMoves epPosition))"
proof -
  let ?xs = "[plainMove 4 3 CHR ''K'' None, plainMove 4 5 CHR ''K'' None,
              plainMove 4 11 CHR ''K'' None, plainMove 4 12 CHR ''K'' None,
              plainMove 4 13 CHR ''K'' None, plainMove 36 44 CHR ''P'' None]"
  let ?ep = "(plainMove 36 43 CHR ''P'' (Some CHR ''p''))\<lparr>flag := Some ''enpassant''\<rparr>"
  have w: "whiteToMove epPosition" by (simp add: epPosition_def)
  have "generateMoves epPosition = filterLegal CHR ''w'' epPosition (?xs @ [?ep])"
    by (simp only: generateMoves_def ep_pseudo w if_True)
  also have "\<dots> = (let (l1, s1) = filterLegal CHR ''w'' epPosition ?xs;
                        (l2, s2) = filterLegal CHR ''w'' s1 [?ep]
                    in (l1 @ l2, s2))"
    by (rule filterLegal_append)
  also have "\<dots> = (?xs @ fst (filterLegal CHR ''w'' epPosition [?ep]),
                    snd (filterLegal CHR ''w'' epPosition [?ep]))"
    by (simp add: filterLegal_eval[OF ep_filter] split_beta del: filterLegal.simps)
  finally show ?thesis
    using ep_last by (simp del: filterLegal.simps)
qed

lemma ep_make_undo:
  "(case makeMove epPosition
           ((plainMove 36 43 CHR ''P'' (Some CHR ''p''))\<lparr>flag := Some ''enpassant''\<rparr>) of
      (s1, un) \<Rightarrow>
        let s2 = undoMove s1 un
        in (s2 = epPosition, board_at (board epPosition) 35, board_at (board epPosition) 51,
            board_at (board s1) 35, board_at (board s2) 35, board_at (board s2) 51))
   = (False, Some CHR ''p'', None, None, None, Some CHR ''p'')"
  unfolding epPosition_def by (simp add: ev cong: let_weak_cong prod.case_cong_weak)

subsection \<open>Legality of generated moves\<close>

text \<open>
  C1. The claim: no move returned by \<open>generateMoves\<close> leaves the mover's own king attacked
  by the opposing colour. The filter loop asks \<open>isSquareAttacked(state, kingIdx,
  !state.whiteToMove)\<close> after \<open>makeMove\<close> has flipped the side to move, that is, whether the
  mover's king is attacked by the mover's own pieces. In the position below White is in
  check from the rook on h1; \<open>generateMoves\<close> returns the king move a1-b1, after which the
  king (on square 1) is still attacked by Black.
\<close>

theorem C1_generateMoves_returns_move_into_check:
  "(case fenToState ''7k/8/8/8/8/8/8/K6r w - - 0 1'' of
      Inl e \<Rightarrow> None
    | Inr s \<Rightarrow>
        let m = plainMove 0 1 CHR ''K'' None
        in Some (whiteToMove s, m \<in> set (fst (generateMoves s)),
                 (case makeMove s m of
                    (s1, un) \<Rightarrow> (findKing s1 True, isSquareAttacked s1 (findKing s1 True) False))))
   = Some (True, True, 1, True)"
proof -
  have "whiteToMove checkPosition" by (simp add: checkPosition_def)
  then show ?thesis
    by (simp add: check_parse check_gen check_after_move)
qed

subsection \<open>Make and unmake\<close>

text \<open>
  C2. The claim: \<open>undoMove\<close> after \<open>makeMove\<close> restores the position for every legal move,
  en-passant captures included. \<open>makeMove\<close> removes the captured pawn from \<open>to - 8\<close> (White
  moving); \<open>undoMove\<close> has already flipped the side back when it computes the square and
  puts the pawn on \<open>to + 8\<close>. In the position below the capture e5xd6 is returned by
  \<open>generateMoves\<close>; after make and unmake the black pawn stands on d7 (51) and d5 (35) is
  empty.
\<close>

theorem C2_undo_of_en_passant_misplaces_pawn:
  "(case fenToState ''4k3/8/8/3pP3/8/8/8/4K3 w - d6 0 1'' of
      Inl e \<Rightarrow> None
    | Inr s \<Rightarrow>
        let m = (plainMove 36 43 CHR ''P'' (Some CHR ''p''))\<lparr>flag := Some ''enpassant''\<rparr>
        in Some (m \<in> set (fst (generateMoves s)),
                 (case makeMove s m of
                    (s1, un) \<Rightarrow>
                      let s2 = undoMove s1 un
                      in (s2 = s, board_at (board s) 35, board_at (board s) 51,
                          board_at (board s1) 35, board_at (board s2) 35,
                          board_at (board s2) 51))))
   = Some (True, False, Some CHR ''p'', None, None, None, Some CHR ''p'')"
  by (simp add: ep_parse ep_gen ep_make_undo)

subsection \<open>Terminal positions of the search\<close>

text \<open>
  C5 (as stated). The claim: for the position \<open>7k/5Q2/6K1/8/8/8/8/8 b - - 0 1\<close> the search
  returns score 0 at every depth from 0 on. At depth 0 the search returns the static
  evaluation, which is 900 here (White's queen; the kings cancel).
\<close>

theorem C5_depth_0_is_static_evaluation:
  "(case fenToState ''7k/5Q2/6K1/8/8/8/8/8 b - - 0 1'' of
      Inl e \<Rightarrow> None
    | Inr s \<Rightarrow> map_option (score \<circ> fst) (search 1 s 0 MInf PInf)) = Some (Fin 900)"
  by (simp add: ev cong: let_weak_cong prod.case_cong_weak)

text \<open>
  C5 (amended). When \<open>generateMoves\<close> returns no move and the king of the side to move is
  not attacked, the search returns score 0 and no move, at every depth other than 0 and
  for every window; at depth 0 it returns the static evaluation. The search returns: one
  level of calls is enough.
\<close>

theorem C5_no_moves_unattacked_scores_zero:
  assumes "generateMoves s = ([], s')"
    and "\<not> isSquareAttacked s' (findKing s' (whiteToMove s')) (\<not> whiteToMove s')"
  shows "search (Suc n) s d alpha beta =
           Some (if d = 0 then (\<lparr>score = Fin (evaluate s), r_move = None\<rparr>, s)
                 else (\<lparr>score = Fin 0, r_move = None\<rparr>, s'))"
  using assms by (simp add: Let_def)

theorem C5_no_moves_unattacked_scores_zero_witness:
  "generateMoves quietPosition = ([], quietPosition)
   \<and> \<not> isSquareAttacked quietPosition (findKing quietPosition (whiteToMove quietPosition))
         (\<not> whiteToMove quietPosition)
   \<and> search (Suc 0) quietPosition 3 MInf PInf
       = Some (\<lparr>score = Fin 0, r_move = None\<rparr>, quietPosition)"
  using C5_no_moves_unattacked_scores_zero [OF quiet_gen quiet_unattacked, of 0 3 MInf PInf]
    quiet_gen quiet_unattacked
  by (simp del: search.simps)

text \<open>
  C8. The claim: a checkmate reached in fewer moves from the root scores strictly better
  for the mating side than a slower one. The code returns \<open>-100000 + depth\<close> when White is
  mated (\<open>100000 - depth\<close> when Black is), where \<open>depth\<close> is the remaining depth: the nearer
  the mate is to the root, the larger the remaining depth and the smaller the magnitude.
  For the smothered mate below, met with remaining depth 2 the score is -99998, met one
  ply later with remaining depth 1 it is -99999, which Black, who minimises, prefers.
\<close>

theorem C8_slower_mate_scores_better:
  "(case fenToState ''6k1/8/8/8/8/8/5nPP/5rRK w - - 0 1'' of
      Inl e \<Rightarrow> None
    | Inr s \<Rightarrow>
        Some (whiteToMove s, fst (generateMoves s),
              isSquareAttacked s (findKing s True) False,
              map_option (score \<circ> fst) (search 1 s 2 MInf PInf),
              map_option (score \<circ> fst) (search 1 s 1 MInf PInf)))
   = Some (True, [], True, Some (Fin (- 99998)), Some (Fin (- 99999)))"
proof -
  have w: "whiteToMove matePosition" by (simp add: matePosition_def)
  have s2: "search (Suc 0) matePosition 2 MInf PInf
              = Some (\<lparr>score = Fin (- 99998), r_move = None\<rparr>, matePosition)"
    using search_no_moves[OF mate_gen, of 2 0 MInf PInf] by (simp add: w mate_check)
  have s1: "search (Suc 0) matePosition 1 MInf PInf
              = Some (\<lparr>score = Fin (- 99999), r_move = None\<rparr>, matePosition)"
    using search_no_moves[OF mate_gen, of 1 0 MInf PInf] by (simp add: w mate_check)
  show ?thesis
    using s1 s2 by (simp add: mate_parse mate_gen mate_check w del: search.simps)
qed

subsection \<open>The move counters\<close>

lemma makeMove_fullmove:
  "fullmove (fst (makeMove s m)) = (if whiteToMove s then incr (fullmove s) else fullmove s)"
  by (simp add: makeMove_def Let_def)

lemma makeMove_halfmove:
  "halfmove (fst (makeMove s m)) =
     (if capture m \<noteq> None then Num 0
      else if toLowerCase (case promotion m of Some p \<Rightarrow> p | None \<Rightarrow> piece m) = CHR ''p''
      then Num 0
      else incr (halfmove s))"
  by (simp add: makeMove_def Let_def)

text \<open>
  C6. The claim: \<open>makeMove\<close> adds 1 to the fullmove counter when Black moved and leaves it
  when White moved. The code tests \<open>!state.whiteToMove\<close> after it has flipped the side, so
  it counts White's moves (\<open>makeMove_fullmove\<close>). From the standard starting position the
  double push e2-e4, one of the moves the generator's scan produces, is made by White and
  takes the counter from 1 to 2.
\<close>

theorem C6_fullmove_changes_after_white_move:
  "(case fenToState ''rnbqkbnr/pppppppp/8/8/8/8/PPPPPPPP/RNBQKBNR w KQkq - 0 1'' of
      Inl e \<Rightarrow> None
    | Inr s \<Rightarrow>
        let m = (plainMove 12 28 CHR ''P'' None)\<lparr>flag := Some ''double''\<rparr>
        in Some (m \<in> set (pseudoMoves s), whiteToMove s, fullmove s,
                 fullmove (fst (makeMove s m))))
   = Some (True, True, Num 1, Num 2)"
  by (simp add: ev cong: let_weak_cong prod.case_cong_weak)

text \<open>
  C7. The claim: \<open>makeMove\<close> resets the halfmove clock on every pawn move, a promotion
  included, and on every capture. The code compares the letter it places, the promoted
  piece, with \<open>p\<close>, so a promotion without a capture counts as a quiet move
  (\<open>makeMove_halfmove\<close>). In the position below the pawn on a7 promotes on a8 to a queen,
  one of the moves the generator's scan produces; the clock goes from 5 to 6.
\<close>

theorem C7_promotion_does_not_reset_halfmove:
  "(case fenToState ''8/P7/8/8/8/8/8/k6K w - - 5 1'' of
      Inl e \<Rightarrow> None
    | Inr s \<Rightarrow>
        let m = \<lparr>from_sq = 48, to_sq = 56, piece = CHR ''P'', capture = None,
                 promotion = Some CHR ''Q'', flag = Some ''promotion'', castle = None\<rparr>
        in Some (m \<in> set (pseudoMoves s), halfmove s, halfmove (fst (makeMove s m))))
   = Some (True, Num 5, Num 6)"
  by (simp add: ev cong: let_weak_cong prod.case_cong_weak)

end
